theory Spec2Isabelle
  imports Complex_Main
begin

section \<open>The driver script of the subsampled open-reference OTU picking workflow\<close>

text \<open>
  The source is \<^verbatim>\<open>scripts/pick_open_reference_otus.py\<close>: the option declarations
  of \<^verbatim>\<open>script_info\<close> and the function \<^verbatim>\<open>main\<close>. \<^verbatim>\<open>main\<close> reads the parsed
  options, prepares the configuration (method bindings, parameters, output directory)
  and ends in exactly one call of a workflow function. The model follows it statement
  by statement: every exit of the script is a value of \<open>failure\<close>, the file system it
  touches is passed explicitly, and the final call is returned as a value that records
  which workflow function is called and with which keyword arguments.
\<close>

subsection \<open>Values\<close>

text \<open>
  A Python float, as far as the script looks at it: the script compares one with
  \<^verbatim>\<open>0.0\<close> and forwards it. A finite float is represented by the number it holds (the
  literals of the source by the decimal fractions they are written as; \<^verbatim>\<open>-0.0\<close> is
  \<open>Finite 0\<close>, which it is equal to under \<^verbatim>\<open>==\<close>). \<^verbatim>\<open>float()\<close> also accepts
  \<^verbatim>\<open>nan\<close> and \<^verbatim>\<open>inf\<close>.
\<close>

datatype pyfloat = Finite rat | PosInf | NegInf | NaN

text \<open>Python's \<^verbatim>\<open>==\<close> on floats: \<^verbatim>\<open>nan\<close> is equal to nothing.\<close>

definition py_float_eq :: "pyfloat \<Rightarrow> pyfloat \<Rightarrow> bool" where
  "py_float_eq a b = (a \<noteq> NaN \<and> b \<noteq> NaN \<and> a = b)"

text \<open>
  The ways the script ends without calling a workflow function.
  \<^verbatim>\<open>option_parser.error(msg)\<close> prints the usage and the message to standard error and
  exits with status 2; an exception nobody catches prints a traceback and the
  interpreter exits with status 1.
\<close>

datatype failure =
    OptionParserError string
  | IOError string
  | OtherException string

fun exit_status :: "failure \<Rightarrow> nat" where
  "exit_status (OptionParserError msg) = 2"
| "exit_status (IOError msg) = 1"
| "exit_status (OtherException msg) = 1"

text \<open>
  The two command handlers and the two status callbacks that \<^verbatim>\<open>main\<close> imports
  (\<open>print_commands\<close> is a word of the proof language, hence the prime).
\<close>

datatype command_handler = print_commands' | call_commands_serially

datatype status_update_callback = print_to_stdout | no_status_updates

text \<open>
  \<^verbatim>\<open>qiime_config\<close> is loaded once when the module is imported; a key that is not set
  reads as \<^verbatim>\<open>None\<close>.
\<close>

type_synonym qiime_config = "string \<rightharpoonup> string"

subsection \<open>The parsed options\<close>

text \<open>
  \<^verbatim>\<open>opts\<close> as \<^verbatim>\<open>parse_command_line_parameters\<close> returns it: one field for each
  option of \<^verbatim>\<open>script_info\<close> that \<^verbatim>\<open>main\<close> reads, plus \<^verbatim>\<open>verbose\<close>. An option of a
  path type that was not given is \<^verbatim>\<open>None\<close>. \<^verbatim>\<open>force\<close> has no default, so it is
  \<^verbatim>\<open>None\<close> when \<^verbatim>\<open>-f\<close> is absent; \<^verbatim>\<open>main\<close> only tests its truth value, and the field
  holds that truth value.
\<close>

record opts =
  input_fps :: "string list"
  reference_fp :: string
  output_dir :: string
  otu_picking_method :: string
  parameter_fp :: "string option"
  prefilter_refseqs_fp :: "string option"
  new_ref_set_id :: string
  force :: bool
  parallel :: bool
  jobs_to_start :: int
  percent_subsample :: pyfloat
  prefilter_percent_id :: pyfloat
  step1_otu_map_fp :: "string option"
  step1_failures_fasta_fp :: "string option"
  suppress_step4 :: bool
  min_otu_size :: int
  suppress_taxonomy_assignment :: bool
  suppress_align_and_tree :: bool
  verbose :: bool

text \<open>
  The values \<^verbatim>\<open>opts\<close> holds when only the three required options are given: the
  \<^verbatim>\<open>default=\<close> of each declaration in \<^verbatim>\<open>script_info['optional_options']\<close>. The
  declarations of \<^verbatim>\<open>jobs_to_start\<close> (\<^verbatim>\<open>options_lookup\<close>) and of \<^verbatim>\<open>verbose\<close> are not in
  this file, so their defaults are arguments.
\<close>

definition default_opts :: "string list \<Rightarrow> string \<Rightarrow> string \<Rightarrow> int \<Rightarrow> bool \<Rightarrow> opts" where
  "default_opts i r o' j v =
     \<lparr>input_fps = i,
      reference_fp = r,
      opts.output_dir = o',
      otu_picking_method = ''uclust'',
      parameter_fp = None,
      opts.prefilter_refseqs_fp = None,
      opts.new_ref_set_id = ''New'',
      force = False,
      opts.parallel = False,
      jobs_to_start = j,
      opts.percent_subsample = Finite (1 / 1000),
      opts.prefilter_percent_id = Finite (60 / 100),
      opts.step1_otu_map_fp = None,
      opts.step1_failures_fasta_fp = None,
      opts.suppress_step4 = False,
      opts.min_otu_size = 2,
      suppress_taxonomy_assignment = False,
      suppress_align_and_tree = False,
      verbose = v\<rparr>"

text \<open>
  The declaration of \<^verbatim>\<open>--otu_picking_method\<close> has \<^verbatim>\<open>type='choice'\<close> with these
  choices; the option parser accepts a value of a choice option when it is one of the
  choices and reports an error otherwise.
\<close>

definition otu_picking_method_choices :: "string list" where
  "otu_picking_method_choices = [''uclust'', ''usearch61'']"

definition check_choice :: "string list \<Rightarrow> string \<Rightarrow> failure + string" where
  "check_choice choices v =
     (if v \<in> set choices then Inr v
      else Inl (OptionParserError (''invalid choice: '' @ v)))"

subsection \<open>The file system\<close>

text \<open>
  What the script sees of the file system: the directories that exist, the files that
  can be opened for reading (with their lines), the files that exist but cannot be
  opened for reading (no read permission), and the paths at which creating a directory
  fails for a reason other than its existence (a parent that cannot be written, a parent
  that is a file, ...), with the error.
\<close>

datatype os_error = EEXIST | EACCES | ENOTDIR | EROFS

record filesystem =
  directories :: "string set"
  files :: "string \<rightharpoonup> string list"
  unreadable :: "string set"
  mkdir_failure :: "string \<rightharpoonup> os_error"

text \<open>A path names a file when it is not empty and the file is there, readable or not.\<close>

definition file_exists :: "filesystem \<Rightarrow> string \<Rightarrow> bool" where
  "file_exists fs path = (path \<noteq> [] \<and> (files fs path \<noteq> None \<or> path \<in> unreadable fs))"

text \<open>
  \<^verbatim>\<open>os.makedirs(path)\<close>: raises \<^verbatim>\<open>OSError\<close> when the directory exists or cannot be
  created, and creates it otherwise (the intermediate directories it also creates are
  not tracked).
\<close>

definition makedirs :: "string \<Rightarrow> filesystem \<Rightarrow> (os_error + unit) \<times> filesystem" where
  "makedirs path fs =
     (if path \<in> directories fs then (Inl EEXIST, fs)
      else case mkdir_failure fs path of
             Some e \<Rightarrow> (Inl e, fs)
           | None \<Rightarrow> (Inr (), fs\<lparr>directories := insert path (directories fs)\<rparr>))"

subsection \<open>The functions \<open>main\<close> calls\<close>

text \<open>
  \<^verbatim>\<open>parse_qiime_parameters\<close> and \<^verbatim>\<open>validate_and_set_jobs_to_start\<close> are imported from
  \<^verbatim>\<open>qiime.parse\<close> and \<^verbatim>\<open>qiime.workflow.util\<close>; their code is not in this file, so they
  are arguments of the model. The first maps the lines of a parameter file to the
  parameters; the second takes the parameters, \<^verbatim>\<open>jobs_to_start\<close>, the configured
  default and \<^verbatim>\<open>parallel\<close>, and gives the parameters back updated (it may call
  \<^verbatim>\<open>option_parser.error\<close>). Either may fail. \<open>'p\<close> is the type of the parameters.
\<close>

record 'p library =
  parse_qiime_parameters :: "string list \<Rightarrow> failure + 'p"
  validate_and_set_jobs_to_start :: "'p \<Rightarrow> int \<Rightarrow> string option \<Rightarrow> bool \<Rightarrow> failure + 'p"

text \<open>
  The keyword arguments of the call that ends \<^verbatim>\<open>main\<close>; both workflow functions are
  called with the same keywords, apart from \<^verbatim>\<open>input_fp\<close> / \<^verbatim>\<open>input_fps\<close>.
  \<^verbatim>\<open>logger\<close> is always \<^verbatim>\<open>None\<close>.
\<close>

record 'p kwargs =
  refseqs_fp :: string
  output_dir :: string
  percent_subsample :: pyfloat
  new_ref_set_id :: string
  command_handler :: command_handler
  params :: 'p
  min_otu_size :: int
  run_assign_tax :: bool
  run_align_and_tree :: bool
  qiime_config :: qiime_config
  prefilter_refseqs_fp :: "string option"
  prefilter_percent_id :: "pyfloat option"
  step1_otu_map_fp :: "string option"
  step1_failures_fasta_fp :: "string option"
  parallel :: bool
  suppress_step4 :: bool
  logger :: "unit option"
  denovo_otu_picking_method :: string
  reference_otu_picking_method :: string
  status_update_callback :: status_update_callback

text \<open>The call that ends \<^verbatim>\<open>main\<close>: the workflow function and its arguments.\<close>

datatype 'p workflow_call =
    pick_subsampled_open_reference_otus string "'p kwargs"
  | iterative_pick_subsampled_open_reference_otus "string list" "'p kwargs"

fun kwargs_of :: "'p workflow_call \<Rightarrow> 'p kwargs" where
  "kwargs_of (pick_subsampled_open_reference_otus fp kw) = kw"
| "kwargs_of (iterative_pick_subsampled_open_reference_otus fps kw) = kw"

subsection \<open>\<open>main\<close>\<close>

text \<open>\<^verbatim>\<open>print_only = False\<close>: the option \<^verbatim>\<open>-w/--print_only\<close> is commented out.\<close>

definition print_only :: bool where
  "print_only = False"

text \<open>
  The \<^verbatim>\<open>if / elif / else\<close> on \<^verbatim>\<open>otu_picking_method\<close>: the de novo and the reference
  method, or the parser's error.
\<close>

definition otu_picking_methods :: "string \<Rightarrow> failure + string \<times> string" where
  "otu_picking_methods m =
     (if m = ''uclust'' then Inr (''uclust'', ''uclust_ref'')
      else if m = ''usearch61'' then Inr (''usearch61'', ''usearch61_ref'')
      else Inl (OptionParserError (''Unkown OTU picking method: '' @ m)))"

text \<open>\<^verbatim>\<open>if opts.parameter_fp:\<close> is the truth value of a path: neither \<^verbatim>\<open>None\<close> nor empty.\<close>

fun path_given :: "string option \<Rightarrow> bool" where
  "path_given None = False"
| "path_given (Some p) = (p \<noteq> [])"

text \<open>
  The parameters: from the lines of the parameter file when one is given (an
  \<^verbatim>\<open>IOError\<close> of \<^verbatim>\<open>open\<close> is raised again with the script's message), from the empty
  list otherwise.
\<close>

definition load_params :: "'p library \<Rightarrow> string option \<Rightarrow> filesystem \<Rightarrow> failure + 'p" where
  "load_params lib fp fs =
     (if path_given fp then
        (case files fs (the fp) of
           None \<Rightarrow> Inl (IOError (''Can't open parameters file ('' @ the fp @
                     ''). Does it exist? Do you have read access?''))
         | Some parameter_f \<Rightarrow> parse_qiime_parameters lib parameter_f)
      else parse_qiime_parameters lib [])"

text \<open>The \<^verbatim>\<open>try: makedirs(output_dir) except OSError:\<close> block.\<close>

definition create_output_dir :: "string \<Rightarrow> bool \<Rightarrow> filesystem \<Rightarrow> (failure + unit) \<times> filesystem" where
  "create_output_dir dir forced fs =
     (case makedirs dir fs of
        (Inr u, fs') \<Rightarrow> (Inr (), fs')
      | (Inl e, fs') \<Rightarrow>
          (if forced then (Inr (), fs')
           else (Inl (OptionParserError
                   (''Output directory already exists. Please '' @
                    ''choose a different directory, or force overwrite with -f.'')), fs')))"

text \<open>
  \<^verbatim>\<open>main\<close>, after \<^verbatim>\<open>parse_command_line_parameters\<close> has returned \<^verbatim>\<open>opts\<close>. The result
  is the failure the script ends with, or the workflow call it makes, and the file
  system it leaves.
\<close>

definition main ::
  "'p library \<Rightarrow> qiime_config \<Rightarrow> opts \<Rightarrow> filesystem \<Rightarrow> (failure + 'p workflow_call) \<times> filesystem" where
  "main lib config opts fs =
     (let prefilter_percent_id' =
            (if py_float_eq (opts.prefilter_percent_id opts) (Finite 0) then None
             else Some (opts.prefilter_percent_id opts))
      in
      case otu_picking_methods (otu_picking_method opts) of
        Inl e \<Rightarrow> (Inl e, fs)
      | Inr (denovo_method, reference_method) \<Rightarrow>
      (case load_params lib (parameter_fp opts) fs of
        Inl e \<Rightarrow> (Inl e, fs)
      | Inr params0 \<Rightarrow>
      (case validate_and_set_jobs_to_start lib params0 (jobs_to_start opts)
              (config ''jobs_to_start'') (opts.parallel opts) of
        Inl e \<Rightarrow> (Inl e, fs)
      | Inr params' \<Rightarrow>
      (case create_output_dir (opts.output_dir opts) (force opts) fs of
        (Inl e, fs') \<Rightarrow> (Inl e, fs')
      | (Inr u, fs') \<Rightarrow>
      (let command_handler' =
             (if print_only then print_commands' else call_commands_serially);
           status_update_callback' =
             (if verbose opts then print_to_stdout else no_status_updates)
       in
       if length (input_fps opts) = 1 then
         (Inr (pick_subsampled_open_reference_otus (input_fps opts ! 0)
            \<lparr>refseqs_fp = reference_fp opts,
             kwargs.output_dir = opts.output_dir opts,
             kwargs.percent_subsample = opts.percent_subsample opts,
             kwargs.new_ref_set_id = opts.new_ref_set_id opts,
             command_handler = command_handler',
             params = params',
             kwargs.min_otu_size = opts.min_otu_size opts,
             run_assign_tax = (\<not> suppress_taxonomy_assignment opts),
             run_align_and_tree = (\<not> suppress_align_and_tree opts),
             qiime_config = config,
             kwargs.prefilter_refseqs_fp = opts.prefilter_refseqs_fp opts,
             kwargs.prefilter_percent_id = prefilter_percent_id',
             kwargs.step1_otu_map_fp = opts.step1_otu_map_fp opts,
             kwargs.step1_failures_fasta_fp = opts.step1_failures_fasta_fp opts,
             kwargs.parallel = opts.parallel opts,
             kwargs.suppress_step4 = opts.suppress_step4 opts,
             logger = None,
             denovo_otu_picking_method = denovo_method,
             reference_otu_picking_method = reference_method,
             status_update_callback = status_update_callback'\<rparr>), fs')
       else
         (Inr (iterative_pick_subsampled_open_reference_otus (input_fps opts)
            \<lparr>refseqs_fp = reference_fp opts,
             kwargs.output_dir = opts.output_dir opts,
             kwargs.percent_subsample = opts.percent_subsample opts,
             kwargs.new_ref_set_id = opts.new_ref_set_id opts,
             command_handler = command_handler',
             params = params',
             kwargs.min_otu_size = opts.min_otu_size opts,
             run_assign_tax = (\<not> suppress_taxonomy_assignment opts),
             run_align_and_tree = (\<not> suppress_align_and_tree opts),
             qiime_config = config,
             kwargs.prefilter_refseqs_fp = opts.prefilter_refseqs_fp opts,
             kwargs.prefilter_percent_id = prefilter_percent_id',
             kwargs.step1_otu_map_fp = opts.step1_otu_map_fp opts,
             kwargs.step1_failures_fasta_fp = opts.step1_failures_fasta_fp opts,
             kwargs.parallel = opts.parallel opts,
             kwargs.suppress_step4 = opts.suppress_step4 opts,
             logger = None,
             denovo_otu_picking_method = denovo_method,
             reference_otu_picking_method = reference_method,
             status_update_callback = status_update_callback'\<rparr>), fs'))))))"


subsection \<open>The first statement of \<open>main\<close>: parsing the options\<close>

text \<open>
  The first statement of \<^verbatim>\<open>main\<close> is \<^verbatim>\<open>parse_command_line_parameters(**script_info)\<close>. Its
  code is not in this file; what is in this file is the type each option is declared
  with, and the parser checks a value against the type of its option before \<^verbatim>\<open>main\<close>
  goes on. A value of type \<^verbatim>\<open>existing_filepath\<close> has to name a file that exists (it need
  not be readable); the parser reports an error otherwise, which ends the script with
  status 2. The message is abbreviated here.
\<close>

definition check_existing_filepath :: "filesystem \<Rightarrow> string \<Rightarrow> failure + string" where
  "check_existing_filepath fs v =
     (if file_exists fs v then Inr v
      else Inl (OptionParserError (''file does not exist: '' @ v)))"

text \<open>An option that was not given keeps its default \<^verbatim>\<open>None\<close>, which is not checked.\<close>

fun check_optional_filepath :: "filesystem \<Rightarrow> string option \<Rightarrow> failure + string option" where
  "check_optional_filepath fs None = Inr None"
| "check_optional_filepath fs (Some v) =
     (case check_existing_filepath fs v of Inl e \<Rightarrow> Inl e | Inr v' \<Rightarrow> Inr (Some v'))"

text \<open>\<^verbatim>\<open>existing_filepaths\<close>: every path of the list has to name a file that exists.\<close>

fun check_existing_filepaths :: "filesystem \<Rightarrow> string list \<Rightarrow> failure + string list" where
  "check_existing_filepaths fs [] = Inr []"
| "check_existing_filepaths fs (v # vs) =
     (case check_existing_filepath fs v of
        Inl e \<Rightarrow> Inl e
      | Inr v' \<Rightarrow>
          (case check_existing_filepaths fs vs of Inl e \<Rightarrow> Inl e | Inr vs' \<Rightarrow> Inr (v' # vs')))"

text \<open>
  The checks that the declarations of \<^verbatim>\<open>script_info\<close> ask for, on the values given on the
  command line: \<^verbatim>\<open>existing_filepaths\<close> for \<^verbatim>\<open>input_fps\<close>, \<^verbatim>\<open>existing_filepath\<close> for
  \<^verbatim>\<open>reference_fp\<close>, \<^verbatim>\<open>parameter_fp\<close>, \<^verbatim>\<open>prefilter_refseqs_fp\<close>, \<^verbatim>\<open>step1_otu_map_fp\<close> and
  \<^verbatim>\<open>step1_failures_fasta_fp\<close>, and \<^verbatim>\<open>choice\<close> for \<^verbatim>\<open>otu_picking_method\<close>. The values of
  the other options are taken as already converted to their types. The parser reports
  the first value it refuses, in the order of the command line; here the order is that of
  the declarations. When every check passes, \<^verbatim>\<open>opts\<close> holds the values as given.
\<close>

definition parse_command_line_parameters :: "filesystem \<Rightarrow> opts \<Rightarrow> failure + opts" where
  "parse_command_line_parameters fs given =
     (case check_existing_filepaths fs (input_fps given) of Inl e \<Rightarrow> Inl e | Inr i \<Rightarrow>
      (case check_existing_filepath fs (reference_fp given) of Inl e \<Rightarrow> Inl e | Inr r \<Rightarrow>
      (case check_choice otu_picking_method_choices (otu_picking_method given) of
         Inl e \<Rightarrow> Inl e | Inr m \<Rightarrow>
      (case check_optional_filepath fs (parameter_fp given) of Inl e \<Rightarrow> Inl e | Inr p \<Rightarrow>
      (case check_optional_filepath fs (opts.prefilter_refseqs_fp given) of
         Inl e \<Rightarrow> Inl e | Inr q \<Rightarrow>
      (case check_optional_filepath fs (opts.step1_otu_map_fp given) of
         Inl e \<Rightarrow> Inl e | Inr s1 \<Rightarrow>
      (case check_optional_filepath fs (opts.step1_failures_fasta_fp given) of
         Inl e \<Rightarrow> Inl e | Inr s2 \<Rightarrow> Inr given)))))))"

text \<open>\<^verbatim>\<open>main\<close> from its first statement: the options are parsed, then \<open>main\<close> runs on them.\<close>

definition main_from_command_line ::
  "'p library \<Rightarrow> qiime_config \<Rightarrow> opts \<Rightarrow> filesystem \<Rightarrow> (failure + 'p workflow_call) \<times> filesystem" where
  "main_from_command_line lib config given fs =
     (case parse_command_line_parameters fs given of
        Inl e \<Rightarrow> (Inl e, fs)
      | Inr opts \<Rightarrow> main lib config opts fs)"


subsection \<open>The range of the subsample percent\<close>

text \<open>
  The specification gives \<^verbatim>\<open>subsample_percent\<close> as a float in the half-open interval
  \<open>(0,1]\<close>. This predicate follows the specification's words; nothing in the script
  computes it.
\<close>

definition subsample_percent_in_range :: "pyfloat \<Rightarrow> bool" where
  "subsample_percent_in_range p = (case p of Finite q \<Rightarrow> 0 < q \<and> q \<le> 1 | _ \<Rightarrow> False)"

subsection \<open>A sample run\<close>

text \<open>
  Concrete values at which the theorems below are exercised: a library whose parameters
  are the lines they are parsed from and whose validation accepts everything, a
  configuration, the options of a run that gives only the required options, and a file
  system with the input files, an empty parameter file, a parameter file without read
  permission, and a place where nothing can be created.
\<close>

definition example_library :: "string list library" where
  "example_library =
     \<lparr>parse_qiime_parameters = (\<lambda>lines. Inr lines),
      validate_and_set_jobs_to_start = (\<lambda>params0 jobs default_jobs par. Inr params0)\<rparr>"

definition example_config :: qiime_config where
  "example_config = [''jobs_to_start'' \<mapsto> ''1'']"

definition example_opts :: opts where
  "example_opts = default_opts [''/data/seqs1.fna''] ''/data/refseqs.fna'' ''/data/ucrss'' 1 False"

definition example_fs :: filesystem where
  "example_fs =
     \<lparr>directories = {''/data'', ''/data/old''},
      files = [''/data/seqs1.fna'' \<mapsto> [''>s1'', ''ACGT''],
               ''/data/seqs2.fna'' \<mapsto> [''>s2'', ''TTGA''],
               ''/data/refseqs.fna'' \<mapsto> [''>r1'', ''ACGT''],
               ''/data/step1_otus.txt'' \<mapsto> [''r1 s1''],
               ''/data/failures.fasta'' \<mapsto> [],
               ''/data/ucrss_params.txt'' \<mapsto> []],
      unreadable = {''/data/locked_params.txt''},
      mkdir_failure = [''/readonly/ucrss'' \<mapsto> EACCES]\<rparr>"

section \<open>Properties of \<open>main\<close>\<close>

subsection \<open>Auxiliary facts\<close>

lemmas example_defs =
  example_library_def example_config_def example_opts_def example_fs_def default_opts_def

lemmas main_unfold =
  main_def Let_def print_only_def otu_picking_methods_def load_params_def
  create_output_dir_def makedirs_def py_float_eq_def

lemma main_reaches_workflow:
  assumes "main lib config opts fs = (Inr c, fs')"
  shows "refseqs_fp (kwargs_of c) = reference_fp opts"
    and "kwargs.output_dir (kwargs_of c) = opts.output_dir opts"
    and "kwargs.percent_subsample (kwargs_of c) = opts.percent_subsample opts"
    and "kwargs.new_ref_set_id (kwargs_of c) = opts.new_ref_set_id opts"
    and "command_handler (kwargs_of c) = call_commands_serially"
    and "kwargs.min_otu_size (kwargs_of c) = opts.min_otu_size opts"
    and "run_assign_tax (kwargs_of c) = (\<not> suppress_taxonomy_assignment opts)"
    and "run_align_and_tree (kwargs_of c) = (\<not> suppress_align_and_tree opts)"
    and "qiime_config (kwargs_of c) = config"
    and "kwargs.prefilter_refseqs_fp (kwargs_of c) = opts.prefilter_refseqs_fp opts"
    and "kwargs.prefilter_percent_id (kwargs_of c) =
           (if py_float_eq (opts.prefilter_percent_id opts) (Finite 0) then None
            else Some (opts.prefilter_percent_id opts))"
    and "kwargs.step1_otu_map_fp (kwargs_of c) = opts.step1_otu_map_fp opts"
    and "kwargs.step1_failures_fasta_fp (kwargs_of c) = opts.step1_failures_fasta_fp opts"
    and "kwargs.parallel (kwargs_of c) = opts.parallel opts"
    and "kwargs.suppress_step4 (kwargs_of c) = opts.suppress_step4 opts"
    and "logger (kwargs_of c) = None"
    and "status_update_callback (kwargs_of c) =
           (if verbose opts then print_to_stdout else no_status_updates)"
    and "otu_picking_methods (otu_picking_method opts) =
           Inr (denovo_otu_picking_method (kwargs_of c), reference_otu_picking_method (kwargs_of c))"
    and "\<exists>params0. load_params lib (parameter_fp opts) fs = Inr params0 \<and>
           validate_and_set_jobs_to_start lib params0 (jobs_to_start opts)
             (config ''jobs_to_start'') (opts.parallel opts) = Inr (params (kwargs_of c))"
    and "create_output_dir (opts.output_dir opts) (force opts) fs = (Inr (), fs')"
    and "c = (if length (input_fps opts) = 1
              then pick_subsampled_open_reference_otus (input_fps opts ! 0) (kwargs_of c)
              else iterative_pick_subsampled_open_reference_otus (input_fps opts) (kwargs_of c))"
  using assms unfolding main_def Let_def print_only_def
  by (auto split: sum.splits prod.splits if_splits)

lemma accepted_method:
  "m \<in> set otu_picking_method_choices \<Longrightarrow> \<exists>d r. otu_picking_methods m = Inr (d, r)"
  by (auto simp: otu_picking_method_choices_def otu_picking_methods_def)

lemma main_proceeds:
  assumes "otu_picking_method opts \<in> set otu_picking_method_choices"
    and "load_params lib (parameter_fp opts) fs = Inr params0"
    and "validate_and_set_jobs_to_start lib params0 (jobs_to_start opts)
           (config ''jobs_to_start'') (opts.parallel opts) = Inr params1"
    and "create_output_dir (opts.output_dir opts) (force opts) fs = (Inr u, fs')"
  shows "\<exists>c. main lib config opts fs = (Inr c, fs')"
proof -
  from accepted_method [OF assms(1)] obtain d r
    where "otu_picking_methods (otu_picking_method opts) = Inr (d, r)" by blast
  with assms(2-4) show ?thesis
    by (simp add: main_def Let_def)
qed

lemma main_stops_at_output_dir:
  assumes "otu_picking_method opts \<in> set otu_picking_method_choices"
    and "load_params lib (parameter_fp opts) fs = Inr params0"
    and "validate_and_set_jobs_to_start lib params0 (jobs_to_start opts)
           (config ''jobs_to_start'') (opts.parallel opts) = Inr params1"
    and "create_output_dir (opts.output_dir opts) (force opts) fs = (Inl e, fs')"
  shows "main lib config opts fs = (Inl e, fs')"
proof -
  from accepted_method [OF assms(1)] obtain d r
    where "otu_picking_methods (otu_picking_method opts) = Inr (d, r)" by blast
  with assms(2-4) show ?thesis
    by (simp add: main_def Let_def)
qed

lemma create_output_dir_files:
  "create_output_dir dir forced fs = (r, fs') \<Longrightarrow>
     files fs' = files fs \<and> directories fs \<subseteq> directories fs' \<and> mkdir_failure fs' = mkdir_failure fs"
  by (auto simp: create_output_dir_def makedirs_def split: if_splits option.splits)

lemma main_files:
  "main lib config opts fs = (r, fs') \<Longrightarrow>
     files fs' = files fs \<and> directories fs \<subseteq> directories fs'"
  unfolding main_def Let_def
  by (auto split: sum.splits prod.splits if_splits dest: create_output_dir_files)

lemma main_failure_before_output_dir:
  assumes "opts.output_dir opts \<in> directories fs" and "\<not> force opts"
  shows "\<exists>e. main lib config opts fs = (Inl e, fs)"
  using assms unfolding main_def Let_def create_output_dir_def makedirs_def
  by (auto split: sum.splits prod.splits)

lemma exit_status_nonzero: "exit_status e \<noteq> 0"
  by (cases e) simp_all

subsection \<open>The prefilter\<close>

text \<open>
  Claim C4. In every run that reaches the workflow, the prefilter is switched by
  \<^verbatim>\<open>prefilter_percent_id\<close> alone: the workflow is called with no prefilter identity
  exactly when the option is equal to \<^verbatim>\<open>0.0\<close>, so \<^verbatim>\<open>0.0\<close> disables the prefilter, and
  every value that is not equal to \<^verbatim>\<open>0.0\<close> is passed through unchanged.
\<close>

theorem C4_prefilter_active_iff_nonzero:
  assumes "main lib config opts fs = (Inr c, fs')"
  shows "(kwargs.prefilter_percent_id (kwargs_of c) = None \<longleftrightarrow>
            py_float_eq (opts.prefilter_percent_id opts) (Finite 0)) \<and>
         (opts.prefilter_percent_id opts = Finite 0 \<longrightarrow>
            kwargs.prefilter_percent_id (kwargs_of c) = None) \<and>
         (\<not> py_float_eq (opts.prefilter_percent_id opts) (Finite 0) \<longrightarrow>
            kwargs.prefilter_percent_id (kwargs_of c) = Some (opts.prefilter_percent_id opts))"
  using main_reaches_workflow(11) [OF assms] by (simp add: py_float_eq_def)

text \<open>
  The sample run passes the default identity 0.60 on; with \<^verbatim>\<open>--prefilter_percent_id 0.0\<close>
  it passes none.
\<close>

theorem C4_prefilter_witness:
  "map_sum id (\<lambda>c. kwargs.prefilter_percent_id (kwargs_of c))
     (fst (main example_library example_config example_opts example_fs)) =
       Inr (Some (Finite (60 / 100))) \<and>
   map_sum id (\<lambda>c. kwargs.prefilter_percent_id (kwargs_of c))
     (fst (main example_library example_config
        (example_opts\<lparr>opts.prefilter_percent_id := Finite 0\<rparr>) example_fs)) = Inr None"
proof -
  obtain c fs' where run: "main example_library example_config example_opts example_fs = (Inr c, fs')"
    by (simp add: example_defs main_unfold)
  obtain c0 fs0 where run0: "main example_library example_config
      (example_opts\<lparr>opts.prefilter_percent_id := Finite 0\<rparr>) example_fs = (Inr c0, fs0)"
    by (simp add: example_defs main_unfold)
  from C4_prefilter_active_iff_nonzero [OF run]
  have "kwargs.prefilter_percent_id (kwargs_of c) = Some (Finite (60 / 100))"
    by (simp add: example_opts_def default_opts_def py_float_eq_def)
  moreover from C4_prefilter_active_iff_nonzero [OF run0]
  have "kwargs.prefilter_percent_id (kwargs_of c0) = None"
    by (simp add: example_opts_def default_opts_def py_float_eq_def)
  ultimately show ?thesis
    by (simp add: run run0)
qed

subsection \<open>Taxonomy assignment, alignment and tree\<close>

text \<open>
  Claim C7. In every run that reaches the workflow, \<^verbatim>\<open>run_assign_tax\<close> is the negation
  of \<^verbatim>\<open>--suppress_taxonomy_assignment\<close> and \<^verbatim>\<open>run_align_and_tree\<close> is the negation of
  \<^verbatim>\<open>--suppress_align_and_tree\<close>; both flags are false by default, so both steps are on
  unless suppressed.
\<close>

theorem C7_suppress_flags:
  "(main lib config opts fs = (Inr c, fs') \<longrightarrow>
      run_assign_tax (kwargs_of c) = (\<not> suppress_taxonomy_assignment opts) \<and>
      run_align_and_tree (kwargs_of c) = (\<not> suppress_align_and_tree opts)) \<and>
   \<not> suppress_taxonomy_assignment (default_opts i r d j v) \<and>
   \<not> suppress_align_and_tree (default_opts i r d j v)"
  using main_reaches_workflow(7,8) [of lib config opts fs c fs']
  by (simp add: default_opts_def)

text \<open>The sample run with \<^verbatim>\<open>--suppress_taxonomy_assignment\<close>: no taxonomy, but a tree.\<close>

theorem C7_suppress_flags_witness:
  "map_sum id (\<lambda>c. (run_assign_tax (kwargs_of c), run_align_and_tree (kwargs_of c)))
     (fst (main example_library example_config
        (example_opts\<lparr>suppress_taxonomy_assignment := True\<rparr>) example_fs)) = Inr (False, True)"
proof -
  obtain c fs' where run: "main example_library example_config
      (example_opts\<lparr>suppress_taxonomy_assignment := True\<rparr>) example_fs = (Inr c, fs')"
    by (simp add: example_defs main_unfold)
  from run C7_suppress_flags [of example_library example_config
        "example_opts\<lparr>suppress_taxonomy_assignment := True\<rparr>" example_fs c fs']
  have "run_assign_tax (kwargs_of c) = False \<and> run_align_and_tree (kwargs_of c) = True"
    by (simp add: example_opts_def default_opts_def)
  then show ?thesis
    by (simp add: run)
qed

subsection \<open>The command handler\<close>

text \<open>
  Claim C8 says that some configuration selects the dry-run handler. None does:
  \<^verbatim>\<open>print_only\<close> is the constant \<^verbatim>\<open>False\<close> and the option that would set it is commented
  out, so no options, configuration, library or file system make \<^verbatim>\<open>main\<close> call a workflow
  with \<^verbatim>\<open>print_commands\<close>.
\<close>

theorem C8_no_dry_run_configuration:
  "\<not> (\<exists>lib config opts fs c fs'.
        main lib config opts fs = (Inr c, fs') \<and> command_handler (kwargs_of c) = print_commands')"
  using main_reaches_workflow(5) by fastforce

text \<open>
  Claim C8, amended. \<^verbatim>\<open>print_only\<close> is false, and every run that reaches the workflow
  passes \<^verbatim>\<open>call_commands_serially\<close> as the command handler: the dry-run handler cannot
  be selected from the options.
\<close>

theorem C8_command_handler_is_serial:
  "\<not> print_only \<and>
   (main lib config opts fs = (Inr c, fs') \<longrightarrow>
      command_handler (kwargs_of c) = call_commands_serially)"
  using main_reaches_workflow(5) [of lib config opts fs c fs']
  by (simp add: print_only_def)

theorem C8_command_handler_witness:
  "map_sum id (\<lambda>c. command_handler (kwargs_of c))
     (fst (main example_library example_config example_opts example_fs)) =
       Inr call_commands_serially"
proof -
  obtain c fs' where run: "main example_library example_config example_opts example_fs = (Inr c, fs')"
    by (simp add: example_defs main_unfold)
  from run C8_command_handler_is_serial [of example_library example_config example_opts example_fs c fs']
  have "command_handler (kwargs_of c) = call_commands_serially"
    by simp
  then show ?thesis
    by (simp add: run)
qed

subsection \<open>Options that are forwarded without a check\<close>

text \<open>
  Whether \<^verbatim>\<open>main\<close> ends in a failure does not depend on the subsample percent: it never
  looks at it before the call.
\<close>

lemma main_independent_of_percent_subsample:
  "isl (fst (main lib config (opts\<lparr>opts.percent_subsample := p\<rparr>) fs)) =
   isl (fst (main lib config opts fs))"
  unfolding main_def Let_def
  by (auto split: sum.splits prod.splits)




text \<open>
  Claim C6 says that a subsample percent of 0 or above 1 is rejected and that the
  workflow is called only with a percent in \<open>(0,1]\<close>. The script has no such check: the
  sample run with \<^verbatim>\<open>-s 2.0\<close> calls the workflow with the percent 2.
\<close>

theorem C6_percent_out_of_range_reaches_workflow:
  "\<not> subsample_percent_in_range (Finite 2) \<and>
   main example_library example_config
     (example_opts\<lparr>opts.percent_subsample := Finite 2\<rparr>) example_fs =
     (Inr (pick_subsampled_open_reference_otus ''/data/seqs1.fna''
        \<lparr>refseqs_fp = ''/data/refseqs.fna'',
         kwargs.output_dir = ''/data/ucrss'',
         kwargs.percent_subsample = Finite 2,
         kwargs.new_ref_set_id = ''New'',
         command_handler = call_commands_serially,
         params = [],
         kwargs.min_otu_size = 2,
         run_assign_tax = True,
         run_align_and_tree = True,
         qiime_config = example_config,
         kwargs.prefilter_refseqs_fp = None,
         kwargs.prefilter_percent_id = Some (Finite (60 / 100)),
         kwargs.step1_otu_map_fp = None,
         kwargs.step1_failures_fasta_fp = None,
         kwargs.parallel = False,
         kwargs.suppress_step4 = False,
         logger = None,
         denovo_otu_picking_method = ''uclust'',
         reference_otu_picking_method = ''uclust_ref'',
         status_update_callback = no_status_updates\<rparr>),
      example_fs\<lparr>directories := insert ''/data/ucrss'' (directories example_fs)\<rparr>)"
  by (simp add: example_defs main_unfold subsample_percent_in_range_def)

text \<open>
  Claim C6, amended. The script does not check the range of the subsample percent:
  every run that reaches the workflow passes \<^verbatim>\<open>percent_subsample\<close> on as the option
  holds it, whether a run ends in a failure before the workflow does not depend on it,
  and the default, 0.001, lies in \<open>(0,1]\<close>.
\<close>

theorem C6_percent_subsample_forwarded_unchecked:
  "(main lib config opts fs = (Inr c, fs') \<longrightarrow>
      kwargs.percent_subsample (kwargs_of c) = opts.percent_subsample opts) \<and>
   isl (fst (main lib config (opts\<lparr>opts.percent_subsample := p\<rparr>) fs)) =
     isl (fst (main lib config opts fs)) \<and>
   subsample_percent_in_range (opts.percent_subsample (default_opts i r d j v))"
  using main_reaches_workflow(3) [of lib config opts fs c fs']
    main_independent_of_percent_subsample
  by (simp add: default_opts_def subsample_percent_in_range_def)

text \<open>The sample run with \<^verbatim>\<open>-s 0\<close> passes the percent 0 on.\<close>

theorem C6_percent_subsample_witness:
  "map_sum id (\<lambda>c. kwargs.percent_subsample (kwargs_of c))
     (fst (main example_library example_config
        (example_opts\<lparr>opts.percent_subsample := Finite 0\<rparr>) example_fs)) = Inr (Finite 0)"
proof -
  obtain c fs' where run: "main example_library example_config
        (example_opts\<lparr>opts.percent_subsample := Finite 0\<rparr>) example_fs = (Inr c, fs')"
    by (simp add: example_defs main_unfold)
  from run C6_percent_subsample_forwarded_unchecked [of example_library example_config
        "example_opts\<lparr>opts.percent_subsample := Finite 0\<rparr>" example_fs c fs']
  have "kwargs.percent_subsample (kwargs_of c) = Finite 0"
    by simp
  then show ?thesis
    by (simp add: run)
qed

subsection \<open>The OTU picking method\<close>

lemma main_unknown_method:
  assumes "otu_picking_method opts \<noteq> ''uclust''" and "otu_picking_method opts \<noteq> ''usearch61''"
  shows "main lib config opts fs =
           (Inl (OptionParserError (''Unkown OTU picking method: '' @ otu_picking_method opts)), fs)"
  using assms by (simp add: main_def Let_def otu_picking_methods_def)

text \<open>
  Claim C3. The selector is one of two values, checked when the options are parsed:
  \<^verbatim>\<open>uclust\<close> gives the pair (\<^verbatim>\<open>uclust\<close>, \<^verbatim>\<open>uclust_ref\<close>) and \<^verbatim>\<open>usearch61\<close> gives
  (\<^verbatim>\<open>usearch61\<close>, \<^verbatim>\<open>usearch61_ref\<close>), and a run that reaches the workflow passes that pair
  as the de novo and the reference method. Every other value is refused by the choice
  check of the option, and \<^verbatim>\<open>main\<close> itself ends with the parser's error on it before
  it reads a file, creates a directory or calls a workflow.
\<close>

theorem C3_method_selector:
  "otu_picking_methods ''uclust'' = Inr (''uclust'', ''uclust_ref'') \<and>
   otu_picking_methods ''usearch61'' = Inr (''usearch61'', ''usearch61_ref'') \<and>
   check_choice otu_picking_method_choices ''uclust'' = Inr ''uclust'' \<and>
   check_choice otu_picking_method_choices ''usearch61'' = Inr ''usearch61'' \<and>
   (m \<noteq> ''uclust'' \<and> m \<noteq> ''usearch61'' \<longrightarrow>
      isl (check_choice otu_picking_method_choices m) \<and> isl (otu_picking_methods m)) \<and>
   (main lib config opts fs = (Inr c, fs') \<and> otu_picking_method opts = ''uclust'' \<longrightarrow>
      denovo_otu_picking_method (kwargs_of c) = ''uclust'' \<and>
      reference_otu_picking_method (kwargs_of c) = ''uclust_ref'') \<and>
   (main lib config opts fs = (Inr c, fs') \<and> otu_picking_method opts = ''usearch61'' \<longrightarrow>
      denovo_otu_picking_method (kwargs_of c) = ''usearch61'' \<and>
      reference_otu_picking_method (kwargs_of c) = ''usearch61_ref'') \<and>
   (otu_picking_method opts \<noteq> ''uclust'' \<and> otu_picking_method opts \<noteq> ''usearch61'' \<longrightarrow>
      main lib config opts fs =
        (Inl (OptionParserError (''Unkown OTU picking method: '' @ otu_picking_method opts)), fs))"
  using main_reaches_workflow(18) [of lib config opts fs c fs']
    main_unknown_method [of opts lib config fs]
  by (auto simp: otu_picking_methods_def check_choice_def otu_picking_method_choices_def)

text \<open>
  The sample run with \<^verbatim>\<open>-m usearch61\<close> passes (\<^verbatim>\<open>usearch61\<close>, \<^verbatim>\<open>usearch61_ref\<close>); with the
  method \<^verbatim>\<open>cdhit\<close> it ends with the parser's error and leaves the file system as it was.
\<close>

theorem C3_method_selector_witness:
  "map_sum id (\<lambda>c. (denovo_otu_picking_method (kwargs_of c), reference_otu_picking_method (kwargs_of c)))
     (fst (main example_library example_config
        (example_opts\<lparr>otu_picking_method := ''usearch61''\<rparr>) example_fs)) =
     Inr (''usearch61'', ''usearch61_ref'') \<and>
   main example_library example_config (example_opts\<lparr>otu_picking_method := ''cdhit''\<rparr>) example_fs =
     (Inl (OptionParserError ''Unkown OTU picking method: cdhit''), example_fs) \<and>
   isl (check_choice otu_picking_method_choices ''cdhit'')"
proof -
  obtain c fs' where run: "main example_library example_config
        (example_opts\<lparr>otu_picking_method := ''usearch61''\<rparr>) example_fs = (Inr c, fs')"
    by (simp add: example_defs main_unfold)
  from run C3_method_selector [of "''cdhit''" example_library example_config
        "example_opts\<lparr>otu_picking_method := ''usearch61''\<rparr>" example_fs c fs']
  have "denovo_otu_picking_method (kwargs_of c) = ''usearch61'' \<and>
        reference_otu_picking_method (kwargs_of c) = ''usearch61_ref'' \<and>
        isl (check_choice otu_picking_method_choices ''cdhit'')"
    by (simp add: example_opts_def default_opts_def)
  moreover from C3_method_selector [of "''cdhit''" example_library example_config
        "example_opts\<lparr>otu_picking_method := ''cdhit''\<rparr>" example_fs c fs']
  have "main example_library example_config (example_opts\<lparr>otu_picking_method := ''cdhit''\<rparr>) example_fs =
     (Inl (OptionParserError ''Unkown OTU picking method: cdhit''), example_fs)"
    by simp
  ultimately show ?thesis
    by (simp add: run)
qed

subsection \<open>The choice of the workflow function\<close>

lemma main_input_fps:
  assumes "main lib config opts fs = (Inr c, fs')"
  shows "main lib config (opts\<lparr>input_fps := fps\<rparr>) fs =
           (Inr (if length fps = 1
                 then pick_subsampled_open_reference_otus (fps ! 0) (kwargs_of c)
                 else iterative_pick_subsampled_open_reference_otus fps (kwargs_of c)), fs')"
  using assms unfolding main_def Let_def
  by (auto split: sum.splits prod.splits if_splits)

text \<open>
  Claim C5. A run that reaches the workflow calls the single-input workflow on the one
  input file when \<^verbatim>\<open>input_fps\<close> has exactly one element, and the iterative workflow on
  the whole list, in its order, when it has two or more. The keyword arguments do not
  depend on the list: with any other list of inputs the same run makes the call with the
  same arguments. Among them the reference, the output directory, the subsample percent,
  the suppression flags, the checkpoint paths and the two methods are the options'.
\<close>

theorem C5_dispatch_on_number_of_inputs:
  assumes "main lib config opts fs = (Inr c, fs')"
  shows "(length (input_fps opts) = 1 \<longrightarrow>
            c = pick_subsampled_open_reference_otus (input_fps opts ! 0) (kwargs_of c)) \<and>
         (2 \<le> length (input_fps opts) \<longrightarrow>
            c = iterative_pick_subsampled_open_reference_otus (input_fps opts) (kwargs_of c)) \<and>
         (\<forall>fps. main lib config (opts\<lparr>input_fps := fps\<rparr>) fs =
            (Inr (if length fps = 1
                  then pick_subsampled_open_reference_otus (fps ! 0) (kwargs_of c)
                  else iterative_pick_subsampled_open_reference_otus fps (kwargs_of c)), fs')) \<and>
         refseqs_fp (kwargs_of c) = reference_fp opts \<and>
         kwargs.output_dir (kwargs_of c) = opts.output_dir opts \<and>
         kwargs.percent_subsample (kwargs_of c) = opts.percent_subsample opts \<and>
         run_assign_tax (kwargs_of c) = (\<not> suppress_taxonomy_assignment opts) \<and>
         run_align_and_tree (kwargs_of c) = (\<not> suppress_align_and_tree opts) \<and>
         kwargs.suppress_step4 (kwargs_of c) = opts.suppress_step4 opts \<and>
         kwargs.step1_otu_map_fp (kwargs_of c) = opts.step1_otu_map_fp opts \<and>
         kwargs.step1_failures_fasta_fp (kwargs_of c) = opts.step1_failures_fasta_fp opts \<and>
         otu_picking_methods (otu_picking_method opts) =
           Inr (denovo_otu_picking_method (kwargs_of c), reference_otu_picking_method (kwargs_of c))"
proof -
  from main_reaches_workflow(21) [OF assms]
  have "length (input_fps opts) = 1 \<longrightarrow>
          c = pick_subsampled_open_reference_otus (input_fps opts ! 0) (kwargs_of c)"
    and "2 \<le> length (input_fps opts) \<longrightarrow>
          c = iterative_pick_subsampled_open_reference_otus (input_fps opts) (kwargs_of c)"
    by (cases "length (input_fps opts) = 1"; simp)+
  moreover have "\<forall>fps. main lib config (opts\<lparr>input_fps := fps\<rparr>) fs =
            (Inr (if length fps = 1
                  then pick_subsampled_open_reference_otus (fps ! 0) (kwargs_of c)
                  else iterative_pick_subsampled_open_reference_otus fps (kwargs_of c)), fs')"
    using main_input_fps [OF assms] by blast
  ultimately show ?thesis
    using main_reaches_workflow(1,2,3,7,8,15,12,13,18) [OF assms] by simp
qed

text \<open>
  The sample run has one input and calls the single-input workflow on it; with two
  inputs it calls the iterative workflow on both, with the same keyword arguments.
\<close>

theorem C5_dispatch_witness:
  "map_sum id (\<lambda>c. c = pick_subsampled_open_reference_otus ''/data/seqs1.fna'' (kwargs_of c))
     (fst (main example_library example_config example_opts example_fs)) = Inr True \<and>
   map_sum id (\<lambda>c. kwargs_of c)
     (fst (main example_library example_config
       (example_opts\<lparr>input_fps := [''/data/seqs1.fna'', ''/data/seqs2.fna'']\<rparr>) example_fs)) =
   map_sum id (\<lambda>c. kwargs_of c)
     (fst (main example_library example_config example_opts example_fs)) \<and>
   map_sum id (\<lambda>c. c = iterative_pick_subsampled_open_reference_otus
                         [''/data/seqs1.fna'', ''/data/seqs2.fna''] (kwargs_of c))
     (fst (main example_library example_config
       (example_opts\<lparr>input_fps := [''/data/seqs1.fna'', ''/data/seqs2.fna'']\<rparr>) example_fs)) = Inr True"
proof -
  obtain c fs' where run: "main example_library example_config example_opts example_fs = (Inr c, fs')"
    by (simp add: example_defs main_unfold)
  note disp = C5_dispatch_on_number_of_inputs [OF run]
  from disp have one: "c = pick_subsampled_open_reference_otus ''/data/seqs1.fna'' (kwargs_of c)"
    by (simp add: example_opts_def default_opts_def)
  from disp have two: "main example_library example_config
       (example_opts\<lparr>input_fps := [''/data/seqs1.fna'', ''/data/seqs2.fna'']\<rparr>) example_fs =
       (Inr (iterative_pick_subsampled_open_reference_otus
               [''/data/seqs1.fna'', ''/data/seqs2.fna''] (kwargs_of c)), fs')"
    by simp
  from one show ?thesis
    by (simp add: run two)
qed

subsection \<open>The output directory\<close>

lemma makedirs_failure_fs:
  "makedirs dir fs = (Inl e, fs') \<Longrightarrow> fs' = fs"
  by (auto simp: makedirs_def split: if_splits option.splits)

lemma create_output_dir_exists:
  assumes "dir \<in> directories fs"
  shows "create_output_dir dir forced fs =
           (if forced then (Inr (), fs)
            else (Inl (OptionParserError
              ''Output directory already exists. Please choose a different directory, or force overwrite with -f.''), fs))"
  using assms by (simp add: create_output_dir_def makedirs_def)

lemma create_output_dir_forced:
  assumes "fst (makedirs dir fs) = Inl e"
  shows "create_output_dir dir True fs = (Inr (), fs)"
proof -
  obtain fs' where "makedirs dir fs = (Inl e, fs')"
    using assms by (cases "makedirs dir fs") simp
  moreover from this have "fs' = fs" by (rule makedirs_failure_fs)
  ultimately show ?thesis by (simp add: create_output_dir_def)
qed

text \<open>
  Claim C2. When the output directory exists and \<^verbatim>\<open>-f\<close> is not given, the script ends in
  a failure with a non-zero exit status, without a workflow call, and leaves the file
  system as it found it; when nothing before \<^verbatim>\<open>makedirs\<close> has failed (the method was
  accepted, the parameters were read and the jobs validated), that failure is the
  parser's error ``Output directory already exists ...''. With \<^verbatim>\<open>-f\<close>, under the same
  condition, the run goes on to the workflow call with that same directory as
  \<^verbatim>\<open>output_dir\<close>, and the file system is unchanged.
\<close>

theorem C2_existing_output_dir:
  assumes "opts.output_dir opts \<in> directories fs"
  shows "(\<not> force opts \<longrightarrow> (\<exists>e. main lib config opts fs = (Inl e, fs) \<and> exit_status e \<noteq> 0)) \<and>
         (otu_picking_method opts \<in> set otu_picking_method_choices \<and>
          load_params lib (parameter_fp opts) fs = Inr params0 \<and>
          validate_and_set_jobs_to_start lib params0 (jobs_to_start opts)
            (config ''jobs_to_start'') (opts.parallel opts) = Inr params1 \<longrightarrow>
            (\<not> force opts \<longrightarrow>
               main lib config opts fs =
                 (Inl (OptionParserError
                    ''Output directory already exists. Please choose a different directory, or force overwrite with -f.''),
                  fs)) \<and>
            (force opts \<longrightarrow>
               (\<exists>c. main lib config opts fs = (Inr c, fs) \<and>
                    kwargs.output_dir (kwargs_of c) = opts.output_dir opts)))"
proof (intro conjI impI)
  assume "\<not> force opts"
  with assms obtain e where "main lib config opts fs = (Inl e, fs)"
    using main_failure_before_output_dir by blast
  then show "\<exists>e. main lib config opts fs = (Inl e, fs) \<and> exit_status e \<noteq> 0"
    using exit_status_nonzero by blast
next
  assume pre: "otu_picking_method opts \<in> set otu_picking_method_choices \<and>
          load_params lib (parameter_fp opts) fs = Inr params0 \<and>
          validate_and_set_jobs_to_start lib params0 (jobs_to_start opts)
            (config ''jobs_to_start'') (opts.parallel opts) = Inr params1"
    and nf: "\<not> force opts"
  from pre have m: "otu_picking_method opts \<in> set otu_picking_method_choices"
    and l: "load_params lib (parameter_fp opts) fs = Inr params0"
    and v: "validate_and_set_jobs_to_start lib params0 (jobs_to_start opts)
            (config ''jobs_to_start'') (opts.parallel opts) = Inr params1"
    by simp_all
  from nf have "create_output_dir (opts.output_dir opts) (force opts) fs =
      (Inl (OptionParserError
         ''Output directory already exists. Please choose a different directory, or force overwrite with -f.''), fs)"
    using create_output_dir_exists [OF assms] by simp
  then show "main lib config opts fs =
      (Inl (OptionParserError
         ''Output directory already exists. Please choose a different directory, or force overwrite with -f.''), fs)"
    by (rule main_stops_at_output_dir [where config = config, OF m l v])
next
  assume pre: "otu_picking_method opts \<in> set otu_picking_method_choices \<and>
          load_params lib (parameter_fp opts) fs = Inr params0 \<and>
          validate_and_set_jobs_to_start lib params0 (jobs_to_start opts)
            (config ''jobs_to_start'') (opts.parallel opts) = Inr params1"
    and f: "force opts"
  from pre have m: "otu_picking_method opts \<in> set otu_picking_method_choices"
    and l: "load_params lib (parameter_fp opts) fs = Inr params0"
    and v: "validate_and_set_jobs_to_start lib params0 (jobs_to_start opts)
            (config ''jobs_to_start'') (opts.parallel opts) = Inr params1"
    by simp_all
  from f have "create_output_dir (opts.output_dir opts) (force opts) fs = (Inr (), fs)"
    using create_output_dir_exists [OF assms] by simp
  from main_proceeds [where config = config, OF m l v this] obtain c where run: "main lib config opts fs = (Inr c, fs)"
    by blast
  with main_reaches_workflow(2) [OF run]
  show "\<exists>c. main lib config opts fs = (Inr c, fs) \<and>
           kwargs.output_dir (kwargs_of c) = opts.output_dir opts"
    by blast
qed

text \<open>
  The sample run into the existing directory \<^verbatim>\<open>/data/old\<close>: refused without \<^verbatim>\<open>-f\<close>, and
  with \<^verbatim>\<open>-f\<close> the workflow is called on \<^verbatim>\<open>/data/old\<close>.
\<close>

theorem C2_existing_output_dir_witness:
  "main example_library example_config (example_opts\<lparr>opts.output_dir := ''/data/old''\<rparr>) example_fs =
     (Inl (OptionParserError
        ''Output directory already exists. Please choose a different directory, or force overwrite with -f.''),
      example_fs) \<and>
   map_sum id (\<lambda>c. kwargs.output_dir (kwargs_of c))
     (fst (main example_library example_config
        (example_opts\<lparr>opts.output_dir := ''/data/old'', force := True\<rparr>) example_fs)) =
     Inr ''/data/old'' \<and>
   snd (main example_library example_config
        (example_opts\<lparr>opts.output_dir := ''/data/old'', force := True\<rparr>) example_fs) = example_fs"
proof -
  have dir: "opts.output_dir (example_opts\<lparr>opts.output_dir := ''/data/old''\<rparr>) \<in> directories example_fs"
    and dir': "opts.output_dir (example_opts\<lparr>opts.output_dir := ''/data/old'', force := True\<rparr>)
                 \<in> directories example_fs"
    by (simp_all add: example_fs_def)
  have "main example_library example_config (example_opts\<lparr>opts.output_dir := ''/data/old''\<rparr>) example_fs =
     (Inl (OptionParserError
        ''Output directory already exists. Please choose a different directory, or force overwrite with -f.''),
      example_fs)"
    using C2_existing_output_dir [OF dir, where lib = example_library and ?params0.0 = "[]"
        and config = example_config and ?params1.0 = "[]"]
    by (simp add: example_opts_def default_opts_def example_library_def load_params_def
        otu_picking_method_choices_def)
  moreover have "\<exists>c. main example_library example_config
        (example_opts\<lparr>opts.output_dir := ''/data/old'', force := True\<rparr>) example_fs = (Inr c, example_fs) \<and>
        kwargs.output_dir (kwargs_of c) = ''/data/old''"
    using C2_existing_output_dir [OF dir', where lib = example_library and ?params0.0 = "[]"
        and config = example_config and ?params1.0 = "[]"]
    by (simp add: example_opts_def default_opts_def example_library_def load_params_def
        otu_picking_method_choices_def)
  ultimately show ?thesis
    by auto
qed

text \<open>
  Claim C9. With \<^verbatim>\<open>-f\<close>, whatever \<^verbatim>\<open>OSError\<close> \<^verbatim>\<open>makedirs\<close> raises (the directory
  exists, or it cannot be created at all) is ignored: when nothing before \<^verbatim>\<open>makedirs\<close>
  has failed, the run goes on to the workflow call with that output directory. No run
  removes anything: the files are the same after \<^verbatim>\<open>main\<close>, and every directory that
  existed still exists.
\<close>

theorem C9_force_ignores_every_oserror:
  "(force opts \<and> fst (makedirs (opts.output_dir opts) fs) = Inl e \<and>
    otu_picking_method opts \<in> set otu_picking_method_choices \<and>
    load_params lib (parameter_fp opts) fs = Inr params0 \<and>
    validate_and_set_jobs_to_start lib params0 (jobs_to_start opts)
      (config ''jobs_to_start'') (opts.parallel opts) = Inr params1 \<longrightarrow>
      (\<exists>c. main lib config opts fs = (Inr c, fs) \<and>
           kwargs.output_dir (kwargs_of c) = opts.output_dir opts)) \<and>
   (main lib config opts fs = (r, fs') \<longrightarrow>
      files fs' = files fs \<and> directories fs \<subseteq> directories fs')"
proof (intro conjI impI)
  assume pre: "force opts \<and> fst (makedirs (opts.output_dir opts) fs) = Inl e \<and>
    otu_picking_method opts \<in> set otu_picking_method_choices \<and>
    load_params lib (parameter_fp opts) fs = Inr params0 \<and>
    validate_and_set_jobs_to_start lib params0 (jobs_to_start opts)
      (config ''jobs_to_start'') (opts.parallel opts) = Inr params1"
  then have m: "otu_picking_method opts \<in> set otu_picking_method_choices"
    and l: "load_params lib (parameter_fp opts) fs = Inr params0"
    and v: "validate_and_set_jobs_to_start lib params0 (jobs_to_start opts)
            (config ''jobs_to_start'') (opts.parallel opts) = Inr params1"
    by simp_all
  from pre have "create_output_dir (opts.output_dir opts) (force opts) fs = (Inr (), fs)"
    using create_output_dir_forced [of "opts.output_dir opts" fs e] by simp
  from main_proceeds [where config = config, OF m l v this] obtain c where run: "main lib config opts fs = (Inr c, fs)"
    by blast
  with main_reaches_workflow(2) [OF run]
  show "\<exists>c. main lib config opts fs = (Inr c, fs) \<and>
           kwargs.output_dir (kwargs_of c) = opts.output_dir opts"
    by blast
next
  assume "main lib config opts fs = (r, fs')"
  then show "files fs' = files fs" and "directories fs \<subseteq> directories fs'"
    using main_files by blast+
qed

text \<open>
  The sample run with \<^verbatim>\<open>-f\<close> into \<^verbatim>\<open>/readonly/ucrss\<close>, which cannot be created
  (\<^verbatim>\<open>EACCES\<close>, not \<^verbatim>\<open>EEXIST\<close>): the workflow is called all the same.
\<close>

theorem C9_force_witness:
  "fst (makedirs ''/readonly/ucrss'' example_fs) = Inl EACCES \<and>
   map_sum id (\<lambda>c. kwargs.output_dir (kwargs_of c))
     (fst (main example_library example_config
        (example_opts\<lparr>opts.output_dir := ''/readonly/ucrss'', force := True\<rparr>) example_fs)) =
     Inr ''/readonly/ucrss'' \<and>
   snd (main example_library example_config
        (example_opts\<lparr>opts.output_dir := ''/readonly/ucrss'', force := True\<rparr>) example_fs) = example_fs"
proof -
  have mk: "fst (makedirs ''/readonly/ucrss'' example_fs) = Inl EACCES"
    by (simp add: makedirs_def example_fs_def)
  have "\<exists>c. main example_library example_config
        (example_opts\<lparr>opts.output_dir := ''/readonly/ucrss'', force := True\<rparr>) example_fs =
          (Inr c, example_fs) \<and>
        kwargs.output_dir (kwargs_of c) = ''/readonly/ucrss''"
    using mk C9_force_ignores_every_oserror [where
        opts = "example_opts\<lparr>opts.output_dir := ''/readonly/ucrss'', force := True\<rparr>"
        and fs = example_fs and e = EACCES and lib = example_library and ?params0.0 = "[]"
        and config = example_config and ?params1.0 = "[]"]
    by (simp add: example_opts_def default_opts_def example_library_def load_params_def
        otu_picking_method_choices_def)
  with mk show ?thesis
    by auto
qed

subsection \<open>The parameter file\<close>

text \<open>
  What the parser lets through, how it fails, and how \<^verbatim>\<open>main\<close> goes on with a parameter
  file that cannot be opened or has no lines.
\<close>

lemma check_optional_filepath_accepts:
  "check_optional_filepath fs v = Inr v' \<Longrightarrow>
     v' = v \<and> (case v of None \<Rightarrow> True | Some p \<Rightarrow> file_exists fs p)"
  by (cases v) (auto simp: check_existing_filepath_def split: if_splits)

lemma parser_failure_status:
  "check_existing_filepath fs v = Inl e \<Longrightarrow> exit_status e = 2"
  "check_optional_filepath fs w = Inl e \<Longrightarrow> exit_status e = 2"
  "check_choice choices m = Inl e \<Longrightarrow> exit_status e = 2"
  by (cases w; auto simp: check_existing_filepath_def check_choice_def split: if_splits)+

lemma check_existing_filepaths_failure_status:
  "check_existing_filepaths fs vs = Inl e \<Longrightarrow> exit_status e = 2"
  by (induction vs) (auto simp: parser_failure_status split: sum.splits)

lemma parse_failure_status:
  "parse_command_line_parameters fs given = Inl e \<Longrightarrow> exit_status e = 2"
  unfolding parse_command_line_parameters_def
  by (auto split: sum.splits
      simp: parser_failure_status check_existing_filepaths_failure_status)

lemma parse_accepts:
  assumes "parse_command_line_parameters fs given = Inr opts"
  shows "opts = given"
    and "otu_picking_method given \<in> set otu_picking_method_choices"
    and "parameter_fp given = Some p \<Longrightarrow> file_exists fs p"
  using assms unfolding parse_command_line_parameters_def
  by (auto split: sum.splits if_splits dest: check_optional_filepath_accepts
      simp: check_choice_def check_existing_filepath_def)

lemma parse_rejects_missing_parameter_file:
  assumes "parameter_fp given = Some p" and "\<not> file_exists fs p"
  shows "\<exists>e. parse_command_line_parameters fs given = Inl e"
  using assms unfolding parse_command_line_parameters_def
  by (auto split: sum.splits simp: check_existing_filepath_def)

lemma parse_parameter_fp_empty_file:
  assumes "q \<noteq> []" and "files fs q = Some []"
  shows "parse_command_line_parameters fs (opts\<lparr>parameter_fp := Some q\<rparr>) =
           map_sum id (\<lambda>o'. o'\<lparr>parameter_fp := Some q\<rparr>)
             (parse_command_line_parameters fs (opts\<lparr>parameter_fp := None\<rparr>))"
  using assms unfolding parse_command_line_parameters_def
  by (auto split: sum.splits simp: check_existing_filepath_def file_exists_def)

lemma main_unreadable_parameter_file:
  assumes "otu_picking_method opts \<in> set otu_picking_method_choices"
    and "parameter_fp opts = Some p" and "p \<noteq> []" and "files fs p = None"
  shows "main lib config opts fs =
           (Inl (IOError (''Can't open parameters file ('' @ p @
                   ''). Does it exist? Do you have read access?'')), fs)"
proof -
  from accepted_method [OF assms(1)] obtain d r
    where "otu_picking_methods (otu_picking_method opts) = Inr (d, r)" by blast
  with assms(2-4) show ?thesis
    by (simp add: main_def Let_def load_params_def)
qed

lemma load_params_empty_file:
  assumes "p \<noteq> []" and "files fs p = Some []"
  shows "load_params lib (Some p) fs = load_params lib None fs"
  using assms by (simp add: load_params_def)

lemma main_empty_parameter_file:
  assumes "p \<noteq> []" and "files fs p = Some []"
  shows "main lib config (opts\<lparr>parameter_fp := Some p\<rparr>) fs =
         main lib config (opts\<lparr>parameter_fp := None\<rparr>) fs"
  unfolding main_def Let_def
  by (simp add: load_params_empty_file [OF assms] split: sum.splits prod.splits)

lemma main_from_command_line_empty_parameter_file:
  assumes "q \<noteq> []" and "files fs q = Some []"
  shows "main_from_command_line lib config (opts\<lparr>parameter_fp := None\<rparr>) fs =
         main_from_command_line lib config (opts\<lparr>parameter_fp := Some q\<rparr>) fs"
proof (cases "parse_command_line_parameters fs (opts\<lparr>parameter_fp := None\<rparr>)")
  case (Inl e)
  then show ?thesis
    by (simp add: main_from_command_line_def parse_parameter_fp_empty_file [OF assms])
next
  case (Inr o')
  then have "o' = opts\<lparr>parameter_fp := None\<rparr>"
    by (rule parse_accepts(1))
  with Inr show ?thesis
    by (simp add: main_from_command_line_def parse_parameter_fp_empty_file [OF assms]
        main_empty_parameter_file [OF assms])
qed

text \<open>
  Claim C10 says that a parameter file that is given and cannot be opened makes the
  program raise an \<^verbatim>\<open>IOError\<close> naming the path. \<^verbatim>\<open>--parameter_fp\<close> is declared with
  \<^verbatim>\<open>type='existing_filepath'\<close>, and parsing is the first statement of \<^verbatim>\<open>main\<close>: for a path
  that names no file, which cannot be opened, the sample run ends with the parser's error
  and status 2, where an \<^verbatim>\<open>IOError\<close> nobody catches ends with status 1.
\<close>

theorem C10_missing_parameter_file_is_refused_by_the_parser:
  "parameter_fp (example_opts\<lparr>parameter_fp := Some ''/data/missing_params.txt''\<rparr>) =
     Some ''/data/missing_params.txt'' \<and>
   files example_fs ''/data/missing_params.txt'' = None \<and>
   main_from_command_line example_library example_config
     (example_opts\<lparr>parameter_fp := Some ''/data/missing_params.txt''\<rparr>) example_fs =
     (Inl (OptionParserError ''file does not exist: /data/missing_params.txt''), example_fs) \<and>
   exit_status (OptionParserError ''file does not exist: /data/missing_params.txt'') = 2 \<and>
   exit_status (IOError
     ''Can't open parameters file (/data/missing_params.txt). Does it exist? Do you have read access?'') = 1"
  by (simp add: example_defs main_from_command_line_def parse_command_line_parameters_def
      check_existing_filepath_def file_exists_def check_choice_def otu_picking_method_choices_def)

text \<open>
  Claim C10, amended. When the parameter file that is given exists, so that the parser
  accepts the options, and it cannot be opened, the script ends with an \<^verbatim>\<open>IOError\<close>
  whose message contains the path, before the output directory is created and without a
  workflow call: the file system is unchanged. When the path names no file, the parser
  refuses it and the script ends with status 2, the file system unchanged. When no
  parameter file is given, the parameters are parsed from the empty list, and the whole
  run, failure or call and file system, is the same as with a parameter file that has no
  lines.
\<close>

theorem C10_parameter_file:
  "(parse_command_line_parameters fs opts = Inr opts \<and>
    parameter_fp opts = Some p \<and> files fs p = None \<longrightarrow>
      main_from_command_line lib config opts fs =
        (Inl (IOError (''Can't open parameters file ('' @ p @
                ''). Does it exist? Do you have read access?'')), fs)) \<and>
   (parameter_fp opts = Some p \<and> \<not> file_exists fs p \<longrightarrow>
      (\<exists>e. main_from_command_line lib config opts fs = (Inl e, fs) \<and> exit_status e = 2)) \<and>
   (\<not> path_given (parameter_fp opts) \<longrightarrow>
      load_params lib (parameter_fp opts) fs = parse_qiime_parameters lib []) \<and>
   (q \<noteq> [] \<and> files fs q = Some [] \<longrightarrow>
      load_params lib (Some q) fs = parse_qiime_parameters lib [] \<and>
      main_from_command_line lib config (opts\<lparr>parameter_fp := None\<rparr>) fs =
      main_from_command_line lib config (opts\<lparr>parameter_fp := Some q\<rparr>) fs)"
proof (intro conjI impI)
  assume a: "parse_command_line_parameters fs opts = Inr opts \<and>
    parameter_fp opts = Some p \<and> files fs p = None"
  then have acc: "parse_command_line_parameters fs opts = Inr opts"
    and given: "parameter_fp opts = Some p"
    by simp_all
  from parse_accepts(2) [OF acc] parse_accepts(3) [OF acc given]
  have "otu_picking_method opts \<in> set otu_picking_method_choices"
    and "file_exists fs p"
    by simp_all
  then have "main lib config opts fs =
        (Inl (IOError (''Can't open parameters file ('' @ p @
                ''). Does it exist? Do you have read access?'')), fs)"
    using a main_unreadable_parameter_file [of opts p fs lib config]
    by (simp add: file_exists_def)
  with a show "main_from_command_line lib config opts fs =
        (Inl (IOError (''Can't open parameters file ('' @ p @
                ''). Does it exist? Do you have read access?'')), fs)"
    by (simp add: main_from_command_line_def)
next
  assume "parameter_fp opts = Some p \<and> \<not> file_exists fs p"
  then obtain e where e: "parse_command_line_parameters fs opts = Inl e"
    using parse_rejects_missing_parameter_file [of opts p fs] by blast
  then have "main_from_command_line lib config opts fs = (Inl e, fs)"
    by (simp add: main_from_command_line_def)
  with parse_failure_status [OF e]
  show "\<exists>e. main_from_command_line lib config opts fs = (Inl e, fs) \<and> exit_status e = 2"
    by blast
next
  assume "\<not> path_given (parameter_fp opts)"
  then show "load_params lib (parameter_fp opts) fs = parse_qiime_parameters lib []"
    by (simp add: load_params_def)
next
  assume "q \<noteq> [] \<and> files fs q = Some []"
  then show "load_params lib (Some q) fs = parse_qiime_parameters lib []"
    by (simp add: load_params_def)
next
  assume "q \<noteq> [] \<and> files fs q = Some []"
  then show "main_from_command_line lib config (opts\<lparr>parameter_fp := None\<rparr>) fs =
      main_from_command_line lib config (opts\<lparr>parameter_fp := Some q\<rparr>) fs"
    using main_from_command_line_empty_parameter_file [of q fs lib config opts] by simp
qed

text \<open>
  The sample run with a parameter file that exists without read permission, and with
  the empty parameter file of the sample file system.
\<close>

theorem C10_parameter_file_witness:
  "main_from_command_line example_library example_config
     (example_opts\<lparr>parameter_fp := Some ''/data/locked_params.txt''\<rparr>) example_fs =
     (Inl (IOError
        ''Can't open parameters file (/data/locked_params.txt). Does it exist? Do you have read access?''),
      example_fs) \<and>
   load_params example_library (parameter_fp example_opts) example_fs = Inr [] \<and>
   main_from_command_line example_library example_config
     (example_opts\<lparr>parameter_fp := None\<rparr>) example_fs =
   main_from_command_line example_library example_config
     (example_opts\<lparr>parameter_fp := Some ''/data/ucrss_params.txt''\<rparr>) example_fs"
proof -
  have accepted: "parse_command_line_parameters example_fs
      (example_opts\<lparr>parameter_fp := Some ''/data/locked_params.txt''\<rparr>) =
      Inr (example_opts\<lparr>parameter_fp := Some ''/data/locked_params.txt''\<rparr>)"
    by (simp add: example_defs parse_command_line_parameters_def
      check_existing_filepath_def file_exists_def check_choice_def otu_picking_method_choices_def)
  have closed: "files example_fs ''/data/locked_params.txt'' = None"
    and empty: "files example_fs ''/data/ucrss_params.txt'' = Some []"
    by (simp_all add: example_fs_def)
  from accepted closed C10_parameter_file [where lib = example_library and config = example_config
      and opts = "example_opts\<lparr>parameter_fp := Some ''/data/locked_params.txt''\<rparr>"
      and fs = example_fs and p = "''/data/locked_params.txt''" and q = "''/data/ucrss_params.txt''"]
  have "main_from_command_line example_library example_config
     (example_opts\<lparr>parameter_fp := Some ''/data/locked_params.txt''\<rparr>) example_fs =
     (Inl (IOError
        ''Can't open parameters file (/data/locked_params.txt). Does it exist? Do you have read access?''),
      example_fs)"
    by simp
  moreover from empty C10_parameter_file [where lib = example_library and config = example_config
      and opts = example_opts
      and fs = example_fs and p = "''/data/missing_params.txt''" and q = "''/data/ucrss_params.txt''"]
  have "load_params example_library (parameter_fp example_opts) example_fs = Inr [] \<and>
   main_from_command_line example_library example_config
     (example_opts\<lparr>parameter_fp := None\<rparr>) example_fs =
   main_from_command_line example_library example_config
     (example_opts\<lparr>parameter_fp := Some ''/data/ucrss_params.txt''\<rparr>) example_fs"
    by (simp add: example_opts_def default_opts_def example_library_def)
  ultimately show ?thesis
    by simp
qed

end
